theory Spec2Isabelle
  imports Main
begin

section \<open>The dispatch generator: \<^verbatim>\<open>template <auto F, class... Prelude> struct dispatch\<close>\<close>

text \<open>
  The template is generic in the wrapped function \<open>F\<close>, in its return type \<open>R\<close> and in its
  parameter types \<open>Prelude..., Args...\<close>. The embedding is generic in the same places:
  \<^item> \<open>'t\<close> is the type of parameter types (the elements of the pack \<open>Args\<close>);
  \<^item> \<open>'a\<close> is the type of typed argument values handed to \<open>F\<close>;
  \<^item> \<open>'v\<close> is what one position of the variable-argument stream holds, \<open>'j\<close> what one
    \<^verbatim>\<open>jvalue\<close> slot holds (\<^verbatim>\<open>jvalue\<close> is declared in jni.h, which is not part of the
    sources at hand);
  \<^item> \<open>'w\<close> is the part of the program state \<open>F\<close> may read and change.

  The two language primitives the dispatcher relies on are parameters of the model:
  reading the next variable argument at type \<open>T\<close> (\<^verbatim>\<open>va_arg(va, T)\<close>) and reading a slot
  through a pointer cast to \<open>T*\<close> (\<^verbatim>\<open>*((T*)p)\<close>). Each returns \<open>None\<close> where the language
  leaves the read undefined.

  What a caller can observe of one dispatch is recorded in a trace: every consumption of
  an argument position (by \<^verbatim>\<open>va_arg\<close>, or by \<^verbatim>\<open>arr++\<close> inside \<^verbatim>\<open>get\<close>) and every invocation
  of \<open>F\<close> with the arguments it received.
\<close>

datatype 'a event = Consume nat | Invoke "'a list"

record ('a, 'w) exec =
  world :: 'w
  trace :: "'a event list"

text \<open>
  \<open>F\<close> with return type \<^verbatim>\<open>void\<close>, or with a return type \<open>R\<close> other than \<^verbatim>\<open>void\<close>. The
  dispatcher tells the two apart with \<^verbatim>\<open>if constexpr (std::is_same_v<R, void>)\<close>.
\<close>

datatype ('a, 'r, 'w) func =
    VoidFn "'a list \<Rightarrow> 'w \<Rightarrow> 'w"
  | ValueFn "'a list \<Rightarrow> 'w \<Rightarrow> 'r \<times> 'w"

text \<open>
  \<^verbatim>\<open>struct BraceCall { R ret; BraceCall(Arg... args) : ret( F(args...) ) { }; };\<close>
  The constructor calls \<open>F\<close> on the arguments it was given and stores the result in \<open>ret\<close>.
\<close>

definition BraceCall ::
  "('a list \<Rightarrow> 'w \<Rightarrow> 'r \<times> 'w) \<Rightarrow> 'a list \<Rightarrow> ('a, 'w) exec \<Rightarrow> 'r \<times> ('a, 'w) exec" where
  "BraceCall F args st =
     (case F args (world st) of
        (ret, w') \<Rightarrow> (ret, \<lparr>world = w', trace = trace st @ [Invoke args]\<rparr>))"

text \<open>
  \<^verbatim>\<open>struct BraceCallVoid { BraceCallVoid(Arg... args) { F(args...); }; };\<close>
\<close>

definition BraceCallVoid ::
  "('a list \<Rightarrow> 'w \<Rightarrow> 'w) \<Rightarrow> 'a list \<Rightarrow> ('a, 'w) exec \<Rightarrow> ('a, 'w) exec" where
  "BraceCallVoid F args st = \<lparr>world = F args (world st), trace = trace st @ [Invoke args]\<rparr>"

text \<open>
  A cursor into an argument sequence: the sequence and the position of the next element.
  \<^verbatim>\<open>va_list va\<close> is a cursor over the variable arguments, \<^verbatim>\<open>jvalue *arr\<close> a pointer into
  the packed array.
\<close>

type_synonym 'v va_list = "'v list \<times> nat"
type_synonym 'j jvalue_ptr = "'j list \<times> nat"

text \<open>
  \<^verbatim>\<open>(Args)va_arg(va, Args)\<close> for one element \<open>T\<close> of the pack: reads the next variable
  argument at type \<open>T\<close> and advances the cursor. The cast to \<open>T\<close> of a value of type \<open>T\<close>
  changes nothing. Reading past the last supplied argument is undefined.
\<close>

definition va_arg ::
  "('t \<Rightarrow> 'v \<Rightarrow> 'a option) \<Rightarrow> 't \<Rightarrow> 'v va_list \<Rightarrow> ('a, 'w) exec
     \<Rightarrow> ('a \<times> 'v va_list \<times> ('a, 'w) exec) option" where
  "va_arg rd T va st =
     (case va of (mem, pos) \<Rightarrow>
        if pos < length mem then
          (case rd T (mem ! pos) of
             None \<Rightarrow> None
           | Some x \<Rightarrow> Some (x, (mem, pos + 1), st\<lparr>trace := trace st @ [Consume pos]\<rparr>))
        else None)"

text \<open>
  \<^verbatim>\<open>auto get = [&]() { return arr++; };\<close> returns the pointer as it was and leaves \<open>arr\<close>
  advanced by one slot. The result is (returned pointer, new \<open>arr\<close>, state).
\<close>

definition get ::
  "'j jvalue_ptr \<Rightarrow> ('a, 'w) exec \<Rightarrow> 'j jvalue_ptr \<times> 'j jvalue_ptr \<times> ('a, 'w) exec" where
  "get arr st =
     (case arr of (mem, pos) \<Rightarrow>
        ((mem, pos), (mem, pos + 1), st\<lparr>trace := trace st @ [Consume pos]\<rparr>))"

text \<open>
  \<^verbatim>\<open>*((Args*)p)\<close> for one element \<open>T\<close> of the pack: the slot \<open>p\<close> points to, read at type \<open>T\<close>.
  A pointer past the end of the array must not be dereferenced.
\<close>

definition deref :: "('t \<Rightarrow> 'j \<Rightarrow> 'a option) \<Rightarrow> 't \<Rightarrow> 'j jvalue_ptr \<Rightarrow> 'a option" where
  "deref rd T p = (case p of (mem, pos) \<Rightarrow> if pos < length mem then rd T (mem ! pos) else None)"

text \<open>
  The pack expansions \<^verbatim>\<open>(Args)va_arg(va, Args)...\<close> and \<^verbatim>\<open>*((Args*)get())...\<close> stand inside
  a braced initialiser list (\<^verbatim>\<open>BraceCall{...}\<close>), whose elements are evaluated in the order
  they are written: the element for the first type of \<open>Args\<close> first, each one on the
  cursor and state its predecessor left behind.
\<close>

fun expand_va_arg ::
  "('t \<Rightarrow> 'v \<Rightarrow> 'a option) \<Rightarrow> 't list \<Rightarrow> 'v va_list \<Rightarrow> ('a, 'w) exec
     \<Rightarrow> ('a list \<times> 'v va_list \<times> ('a, 'w) exec) option" where
  "expand_va_arg rd [] va st = Some ([], va, st)"
| "expand_va_arg rd (T # Ts) va st =
     (case va_arg rd T va st of
        None \<Rightarrow> None
      | Some (x, va', st') \<Rightarrow>
          (case expand_va_arg rd Ts va' st' of
             None \<Rightarrow> None
           | Some (xs, va'', st'') \<Rightarrow> Some (x # xs, va'', st'')))"

fun expand_get ::
  "('t \<Rightarrow> 'j \<Rightarrow> 'a option) \<Rightarrow> 't list \<Rightarrow> 'j jvalue_ptr \<Rightarrow> ('a, 'w) exec
     \<Rightarrow> ('a list \<times> 'j jvalue_ptr \<times> ('a, 'w) exec) option" where
  "expand_get rd [] arr st = Some ([], arr, st)"
| "expand_get rd (T # Ts) arr st =
     (case get arr st of
        (p, arr', st') \<Rightarrow>
          (case deref rd T p of
             None \<Rightarrow> None
           | Some x \<Rightarrow>
               (case expand_get rd Ts arr' st' of
                  None \<Rightarrow> None
                | Some (xs, arr'', st'') \<Rightarrow> Some (x # xs, arr'', st''))))"

text \<open>
  \<^verbatim>\<open>static R dispatch_v(Prelude... pre_args, va_list va)\<close>. The result is \<open>None\<close> when an
  extraction is undefined; otherwise the value returned to the caller (\<open>None\<close> for
  \<^verbatim>\<open>void\<close>) and the state after the call.
\<close>

definition dispatch_v ::
  "('t \<Rightarrow> 'v \<Rightarrow> 'a option) \<Rightarrow> ('a, 'r, 'w) func \<Rightarrow> 't list \<Rightarrow> 'a list \<Rightarrow> 'v va_list
     \<Rightarrow> ('a, 'w) exec \<Rightarrow> ('r option \<times> ('a, 'w) exec) option" where
  "dispatch_v rd F Args pre_args va st =
     (case expand_va_arg rd Args va st of
        None \<Rightarrow> None
      | Some (args, va', st') \<Rightarrow>
          (case F of
             VoidFn f \<Rightarrow> Some (None, BraceCallVoid f (pre_args @ args) st')
           | ValueFn f \<Rightarrow>
               (case BraceCall f (pre_args @ args) st' of
                  (ret, st'') \<Rightarrow> Some (Some ret, st''))))"

text \<open>\<^verbatim>\<open>static R dispatch_a(Prelude... pre_args, jvalue *arr)\<close>.\<close>

definition dispatch_a ::
  "('t \<Rightarrow> 'j \<Rightarrow> 'a option) \<Rightarrow> ('a, 'r, 'w) func \<Rightarrow> 't list \<Rightarrow> 'a list \<Rightarrow> 'j jvalue_ptr
     \<Rightarrow> ('a, 'w) exec \<Rightarrow> ('r option \<times> ('a, 'w) exec) option" where
  "dispatch_a rd F Args pre_args arr st =
     (case expand_get rd Args arr st of
        None \<Rightarrow> None
      | Some (args, arr', st') \<Rightarrow>
          (case F of
             VoidFn f \<Rightarrow> Some (None, BraceCallVoid f (pre_args @ args) st')
           | ValueFn f \<Rightarrow>
               (case BraceCall f (pre_args @ args) st' of
                  (ret, st'') \<Rightarrow> Some (Some ret, st''))))"

text \<open>
  A call supplies its arguments when the sequence holds at least one element per type of
  \<open>Args\<close> and each of them can be read at the type of its position.
\<close>

definition supplied :: "('t \<Rightarrow> 's \<Rightarrow> 'a option) \<Rightarrow> 't list \<Rightarrow> 's list \<Rightarrow> bool" where
  "supplied rd Args mem =
     (length Args \<le> length mem \<and>
      list_all (\<lambda>(T, s). rd T s \<noteq> None) (zip Args mem))"

text \<open>The arguments extracted from positions \<open>0, 1, ...\<close>: position \<open>i\<close> read at type \<open>Args ! i\<close>.\<close>

definition extracted :: "('t \<Rightarrow> 's \<Rightarrow> 'a option) \<Rightarrow> 't list \<Rightarrow> 's list \<Rightarrow> 'a list" where
  "extracted rd Args mem = map (\<lambda>i. the (rd (Args ! i) (mem ! i))) [0..<length Args]"

text \<open>What the caller of an entry point observes: the returned value, the state \<open>F\<close> left
  behind, and how often \<open>F\<close> has been invoked.\<close>

definition invocations :: "'a event list \<Rightarrow> nat" where
  "invocations tr = length (filter (\<lambda>e. case e of Invoke _ \<Rightarrow> True | Consume _ \<Rightarrow> False) tr)"

definition observe :: "'r option \<times> ('a, 'w) exec \<Rightarrow> 'r option \<times> 'w \<times> nat" where
  "observe out = (case out of (ret, st) \<Rightarrow> (ret, world st, invocations (trace st)))"

subsection \<open>The primitives on JNI argument types\<close>

text \<open>
  The parameter types a registered function is written with. jni.h declares them:
  \<^verbatim>\<open>jboolean\<close> is \<^verbatim>\<open>uint8_t\<close>, \<^verbatim>\<open>jbyte\<close> is \<^verbatim>\<open>int8_t\<close>, \<^verbatim>\<open>jchar\<close> is \<^verbatim>\<open>uint16_t\<close>, \<^verbatim>\<open>jshort\<close> is
  \<^verbatim>\<open>int16_t\<close>, \<^verbatim>\<open>jint\<close> is \<^verbatim>\<open>int32_t\<close>, \<^verbatim>\<open>jlong\<close> is \<^verbatim>\<open>int64_t\<close>, \<^verbatim>\<open>jfloat\<close> is \<^verbatim>\<open>float\<close>,
  \<^verbatim>\<open>jdouble\<close> is \<^verbatim>\<open>double\<close>; \<^verbatim>\<open>jobject\<close>, \<^verbatim>\<open>jclass\<close> and \<^verbatim>\<open>jstring\<close> are pointers to the
  distinct classes \<^verbatim>\<open>_jobject\<close>, \<^verbatim>\<open>_jclass\<close> and \<^verbatim>\<open>_jstring\<close>. Any other type is given by
  its name: \<open>Narrow\<close> for an integer type of a rank below that of \<^verbatim>\<open>int\<close> (\<^verbatim>\<open>bool\<close>,
  \<^verbatim>\<open>char\<close>, ...), which the default argument promotions turn into \<^verbatim>\<open>int\<close>, and
  \<open>Unchanged\<close> for a type these promotions leave as it is (a pointer, a class, \<^verbatim>\<open>int\<close>,
  \<^verbatim>\<open>double\<close>, ...).
\<close>

datatype ctype =
    JNIEnvPtr | JObject | JClass | JString
  | JBoolean | JByte | JChar | JShort | JInt | JLong | JFloat | JDouble
  | Narrow string | Unchanged string

text \<open>A typed value: its type and the value it represents.\<close>

datatype 'p cval = CVal ctype 'p

fun type_of :: "'p cval \<Rightarrow> ctype" where
  "type_of (CVal T p) = T"

text \<open>
  The default argument promotions, which every argument passed through \<^verbatim>\<open>...\<close>
  undergoes: integer types narrower than \<^verbatim>\<open>int\<close> become \<^verbatim>\<open>int\<close>, \<^verbatim>\<open>float\<close> becomes
  \<^verbatim>\<open>double\<close>. The value is kept.
\<close>

fun promotes_to :: "ctype \<Rightarrow> ctype" where
  "promotes_to JBoolean = JInt"
| "promotes_to JByte = JInt"
| "promotes_to JChar = JInt"
| "promotes_to JShort = JInt"
| "promotes_to JFloat = JDouble"
| "promotes_to (Narrow n) = JInt"
| "promotes_to T = T"

fun va_pass :: "'p cval \<Rightarrow> 'p cval" where
  "va_pass (CVal T p) = CVal (promotes_to T) p"

text \<open>
  \<^verbatim>\<open>va_arg(va, T)\<close> on the next variable argument \<open>v\<close>: defined when \<open>T\<close> is the type of
  \<open>v\<close> as promoted. A type that the promotions change is never the type of a variable
  argument, so \<^verbatim>\<open>va_arg\<close> at such a type is undefined (gcc, the compiler the source's
  comment names, compiles it to a trap).
\<close>

fun jni_va_arg :: "ctype \<Rightarrow> 'p cval \<Rightarrow> 'p cval option" where
  "jni_va_arg T (CVal T' p) = (if promotes_to T = T \<and> T' = T then Some (CVal T p) else None)"

text \<open>
  \<^verbatim>\<open>*((T*)p)\<close> on a \<^verbatim>\<open>jvalue\<close> slot: the member of type \<open>T\<close> of the union. The slot is
  modelled by the member that was stored in it; reading another member is not defined.
\<close>

fun jvalue_read :: "ctype \<Rightarrow> 'p cval \<Rightarrow> 'p cval option" where
  "jvalue_read T (CVal T' p) = (if T' = T then Some (CVal T p) else None)"

section \<open>Descriptors\<close>

text \<open>
  A pointer is \<open>None\<close> (null) or \<open>Some\<close> of what it points to; a \<^verbatim>\<open>const char *\<close> is a
  pointer to a string. Pointers to tables and to code are kept as addresses. Where two
  structs name a member alike (\<^verbatim>\<open>clazz\<close>, \<^verbatim>\<open>name\<close>, \<^verbatim>\<open>signature\<close>), the fields of
  \<^verbatim>\<open>ManagedMethod\<close> carry the prefix \<open>mm_\<close> and those of \<^verbatim>\<open>FieldId\<close> the prefix \<open>fid_\<close>;
  the member \<^verbatim>\<open>fields\<close> of \<^verbatim>\<open>Class\<close> is \<open>class_fields\<close>.
\<close>

type_synonym addr = nat
type_synonym c_str = "string option"

record Class =
  classpath :: c_str
  classname :: c_str
  managed_methods :: addr
  native_methods :: addr
  class_fields :: addr
  instance_size :: int





text \<open>The address of a generated entry point: \<^verbatim>\<open>dispatch<F, Prelude...>::vargs\<close> or \<^verbatim>\<open>::aargs\<close>.\<close>

datatype 'f entry_point = vargs 'f "ctype list" | aargs 'f "ctype list"

record 'f ManagedMethod =
  mm_clazz :: "Class option"
  mm_name :: c_str
  mm_signature :: c_str
  addr_variadic :: "'f entry_point"
  addr_array :: "'f entry_point"

record FieldId =
  fid_clazz :: "Class option"
  fid_name :: c_str
  fid_signature :: c_str
  fid_offset :: nat
  fid_is_static :: int

subsection \<open>Registration of managed methods\<close>

text \<open>
  Registration is evaluated by the compiler. Its outcome is a descriptor, or the build
  fails: on a \<^verbatim>\<open>static_assert\<close> (with its message), or because no definition of
  \<^verbatim>\<open>unwrap\<close> matches the type of \<open>F\<close>, so that \<^verbatim>\<open>sig\<close> is an incomplete type and
  \<^verbatim>\<open>sig::args\<close> names nothing.
\<close>

datatype build_error = Static_assert string | Incomplete_unwrap

text \<open>
  The type of the function \<open>F\<close> points to: its parameter types, whether it is declared
  \<^verbatim>\<open>noexcept\<close>, and whether its parameter list ends in an ellipsis. Registration does
  not look at the return type.
\<close>

record fn_type =
  fn_args :: "ctype list"
  fn_noexcept :: bool
  fn_ellipsis :: bool

text \<open>
  \<^verbatim>\<open>template<typename R, typename... Args> struct unwrap<R(Args...)>\<close> is the only
  definition of \<^verbatim>\<open>unwrap\<close> in \<^verbatim>\<open>get_function_args\<close>. It matches a function type that is
  neither \<^verbatim>\<open>noexcept\<close> nor variadic.
\<close>

definition unwrap_matches :: "fn_type \<Rightarrow> bool" where
  "unwrap_matches ft = (\<not> fn_noexcept ft \<and> \<not> fn_ellipsis ft)"

text \<open>The parameter types of \<open>F\<close>: \<^verbatim>\<open>get_function_args<F>::sig::args\<close>, a \<^verbatim>\<open>std::tuple<Args...>\<close>.\<close>

type_synonym args_tuple = "ctype list"

definition tuple_size_v :: "args_tuple \<Rightarrow> nat" where
  "tuple_size_v args = length args"

text \<open>\<^verbatim>\<open>std::tuple_element_t<i, args>\<close> is ill-formed when \<open>i\<close> is not below the size.\<close>

definition tuple_element_t :: "nat \<Rightarrow> args_tuple \<Rightarrow> ctype option" where
  "tuple_element_t i args = (if i < length args then Some (args ! i) else None)"

definition is_same_v :: "ctype \<Rightarrow> ctype option \<Rightarrow> bool" where
  "is_same_v T U = (U = Some T)"

text \<open>
  In each operation, \<^verbatim>\<open>using args = get_function_args<F>::sig::args;\<close> comes first and
  needs \<^verbatim>\<open>unwrap\<close> to match; the \<^verbatim>\<open>static_assert\<close>s follow in the order of the source.
  Once they hold, the parameter types of \<open>F\<close> begin with the prelude, so
  \<^verbatim>\<open>unwrap<R(Prelude..., Args...)>\<close> of \<^verbatim>\<open>dispatch\<close> matches as well and \<^verbatim>\<open>disp::vargs\<close> and
  \<^verbatim>\<open>disp::aargs\<close> exist.
\<close>

definition Register ::
  "'f \<Rightarrow> fn_type \<Rightarrow> Class \<Rightarrow> c_str \<Rightarrow> c_str \<Rightarrow> build_error + 'f ManagedMethod" where
  "Register F ft clz name signature =
     (if \<not> unwrap_matches ft then Inl Incomplete_unwrap
      else if \<not> 2 \<le> tuple_size_v (fn_args ft) then
        Inl (Static_assert ''Invalid number of arguments, expect 2 or more.'')
      else if \<not> is_same_v JNIEnvPtr (tuple_element_t 0 (fn_args ft)) then
        Inl (Static_assert ''First Method argument expected JNIEnv *.'')
      else if \<not> is_same_v JObject (tuple_element_t 1 (fn_args ft)) then
        Inl (Static_assert ''Second Method argument expected jobject.'')
      else Inr \<lparr>mm_clazz = Some clz, mm_name = name, mm_signature = signature,
                addr_variadic = vargs F [JNIEnvPtr, JObject],
                addr_array = aargs F [JNIEnvPtr, JObject]\<rparr>)"

definition RegisterStatic ::
  "'f \<Rightarrow> fn_type \<Rightarrow> Class \<Rightarrow> c_str \<Rightarrow> c_str \<Rightarrow> build_error + 'f ManagedMethod" where
  "RegisterStatic F ft clz name signature =
     (if \<not> unwrap_matches ft then Inl Incomplete_unwrap
      else if \<not> 2 \<le> tuple_size_v (fn_args ft) then
        Inl (Static_assert ''Invalid number of arguments, expect 2 or more.'')
      else if \<not> is_same_v JNIEnvPtr (tuple_element_t 0 (fn_args ft)) then
        Inl (Static_assert ''First Method argument expected JNIEnv *.'')
      else if \<not> is_same_v JClass (tuple_element_t 1 (fn_args ft)) then
        Inl (Static_assert ''Second Method argument expected jclass.'')
      else Inr \<lparr>mm_clazz = Some clz, mm_name = name, mm_signature = signature,
                addr_variadic = vargs F [JNIEnvPtr, JClass],
                addr_array = aargs F [JNIEnvPtr, JClass]\<rparr>)"

definition RegisterNonVirtual ::
  "'f \<Rightarrow> fn_type \<Rightarrow> Class \<Rightarrow> c_str \<Rightarrow> c_str \<Rightarrow> build_error + 'f ManagedMethod" where
  "RegisterNonVirtual F ft clz name signature =
     (if \<not> unwrap_matches ft then Inl Incomplete_unwrap
      else if \<not> 3 \<le> tuple_size_v (fn_args ft) then
        Inl (Static_assert ''Invalid number of arguments, expect 3 or more.'')
      else if \<not> is_same_v JNIEnvPtr (tuple_element_t 0 (fn_args ft)) then
        Inl (Static_assert ''First Method argument expected JNIEnv *.'')
      else if \<not> is_same_v JObject (tuple_element_t 1 (fn_args ft)) then
        Inl (Static_assert ''Second Method argument expected jobject.'')
      else if \<not> is_same_v JClass (tuple_element_t 2 (fn_args ft)) then
        Inl (Static_assert ''Third Method argument expected jclass.'')
      else Inr \<lparr>mm_clazz = Some clz, mm_name = name, mm_signature = signature,
                addr_variadic = vargs F [JNIEnvPtr, JObject, JClass],
                addr_array = aargs F [JNIEnvPtr, JObject, JClass]\<rparr>)"

text \<open>The two checks as the specification words them: \<open>F\<close> has at least as many parameters
  as the prelude is long, and its leading parameter types are the prelude's, in order.\<close>

definition prelude_ok :: "ctype list \<Rightarrow> args_tuple \<Rightarrow> bool" where
  "prelude_ok Prelude args =
     (length Prelude \<le> length args \<and> list_all2 (=) Prelude (take (length Prelude) args))"

definition builds :: "build_error + 'm \<Rightarrow> bool" where
  "builds out = (case out of Inl e \<Rightarrow> False | Inr m \<Rightarrow> True)"

subsection \<open>Registration of fields\<close>

text \<open>
  \<^verbatim>\<open>REGISTER_FIELD\<close> takes the address of a member of an object placed at address 0, so
  its value is decided by where the compiler places the non-static data members of the
  class. A class is described by these members in the order of their placement (those
  of a base class first), each with its size and alignment; the compiler places every
  member at the next position that satisfies its alignment.
\<close>

record data_member =
  m_name :: string
  m_size :: nat
  m_align :: nat

definition align_up :: "nat \<Rightarrow> nat \<Rightarrow> nat" where
  "align_up a n = (if n mod a = 0 then n else n + (a - n mod a))"

fun offsets_from :: "nat \<Rightarrow> data_member list \<Rightarrow> (string \<times> nat) list" where
  "offsets_from pos [] = []"
| "offsets_from pos (m # ms) =
     (m_name m, align_up (m_align m) pos)
       # offsets_from (align_up (m_align m) pos + m_size m) ms"

fun end_from :: "nat \<Rightarrow> data_member list \<Rightarrow> nat" where
  "end_from pos [] = pos"
| "end_from pos (m # ms) = end_from (align_up (m_align m) pos + m_size m) ms"

definition alignof :: "data_member list \<Rightarrow> nat" where
  "alignof ms = fold max (map m_align ms) 1"

definition sizeof :: "data_member list \<Rightarrow> nat" where
  "sizeof ms = max 1 (align_up (alignof ms) (end_from 0 ms))"

definition offsetof :: "data_member list \<Rightarrow> string \<Rightarrow> nat option" where
  "offsetof ms field = map_of (offsets_from 0 ms) field"

text \<open>Every member has a complete object type: its size is positive.\<close>

definition complete_members :: "data_member list \<Rightarrow> bool" where
  "complete_members ms = list_all (\<lambda>m. 0 < m_size m) ms"

text \<open>
  A class \<open>clz\<close> as the macros use it: its static member \<^verbatim>\<open>clz::clazz\<close> (the descriptor),
  its other static data members with their addresses, and its non-static data members.
\<close>

record cxx_class =
  static_clazz :: Class
  static_members :: "(string \<times> addr) list"
  members :: "data_member list"

text \<open>\<^verbatim>\<open>&(((clz*)base)->field)\<close>: the address of member \<open>field\<close> of the object at \<open>base\<close>.
  The class has no such member: \<open>None\<close> (the expression does not compile).\<close>

definition member_address :: "cxx_class \<Rightarrow> addr \<Rightarrow> string \<Rightarrow> addr option" where
  "member_address clz base field =
     (case offsetof (members clz) field of None \<Rightarrow> None | Some off \<Rightarrow> Some (base + off))"

text \<open>
  \<^verbatim>\<open>#define REGISTER_FIELD(clz, field)
    {.clazz = &clz::clazz, .name = #field, .offset = (uintptr_t)&(((clz*)0x0)->field), .is_static = 0}\<close>
  No initialiser is given for \<^verbatim>\<open>signature\<close>: the member is initialised from an empty
  initialiser list, which makes a pointer null.
\<close>

definition REGISTER_FIELD :: "cxx_class \<Rightarrow> string \<Rightarrow> FieldId option" where
  "REGISTER_FIELD clz field =
     (case member_address clz 0 field of
        None \<Rightarrow> None
      | Some a \<Rightarrow>
          Some \<lparr>fid_clazz = Some (static_clazz clz), fid_name = Some field,
                fid_signature = None, fid_offset = a, fid_is_static = 0\<rparr>)"

text \<open>
  \<^verbatim>\<open>#define REGISTER_STATIC_FIELD(clz, field)
    {.clazz = &clz::clazz, .name = #field, .offset = (uintptr_t)&clz::field, .is_static = 1}\<close>
\<close>

definition REGISTER_STATIC_FIELD :: "cxx_class \<Rightarrow> string \<Rightarrow> FieldId option" where
  "REGISTER_STATIC_FIELD clz field =
     (case map_of (static_members clz) field of
        None \<Rightarrow> None
      | Some a \<Rightarrow>
          Some \<lparr>fid_clazz = Some (static_clazz clz), fid_name = Some field,
                fid_signature = None, fid_offset = a, fid_is_static = 1\<rparr>)"

text \<open>\<^verbatim>\<open>struct Object { Class *clazz; ... };\<close> holds one pointer, of \<open>psz\<close> bytes.\<close>

definition Object_members :: "nat \<Rightarrow> data_member list" where
  "Object_members psz = [\<lparr>m_name = ''clazz'', m_size = psz, m_align = psz\<rparr>]"

text \<open>A class that derives from \<^verbatim>\<open>Object\<close>, as \<^verbatim>\<open>ArrayObject\<close> and \<^verbatim>\<open>String\<close> do, places
  the members of \<^verbatim>\<open>Object\<close> first.\<close>

definition derives_Object :: "nat \<Rightarrow> cxx_class \<Rightarrow> bool" where
  "derives_Object psz clz = (take 1 (members clz) = Object_members psz)"

text \<open>
  \<^verbatim>\<open>struct ArrayObject : Object { Class *instance_clazz; jsize count; jsize element_size;
    void *elements; };\<close> with \<^verbatim>\<open>jsize\<close> of 4 bytes.
\<close>

definition ArrayObject_members :: "nat \<Rightarrow> data_member list" where
  "ArrayObject_members psz =
     Object_members psz @
     [\<lparr>m_name = ''instance_clazz'', m_size = psz, m_align = psz\<rparr>,
      \<lparr>m_name = ''count'', m_size = 4, m_align = 4\<rparr>,
      \<lparr>m_name = ''element_size'', m_size = 4, m_align = 4\<rparr>,
      \<lparr>m_name = ''elements'', m_size = psz, m_align = psz\<rparr>]"

text \<open>
  The offset the specification describes: counted from the start of the payload area,
  the region that follows the \<^verbatim>\<open>Object\<close> header.
\<close>

definition payload_offset :: "nat \<Rightarrow> cxx_class \<Rightarrow> string \<Rightarrow> nat option" where
  "payload_offset psz clz field =
     (case offsetof (members clz) field of
        None \<Rightarrow> None
      | Some off \<Rightarrow> Some (off - sizeof (Object_members psz)))"

text \<open>
  Modelled from the spec: no code under src/ gives \<^verbatim>\<open>instance_size\<close> a value (the
  descriptors are built by per-class code that is not at hand). The specification calls
  it "the byte size of one instance".
\<close>

definition instance_size_of_class :: "cxx_class \<Rightarrow> bool" where
  "instance_size_of_class clz = (instance_size (static_clazz clz) = int (sizeof (members clz)))"

text \<open>
  Modelled from the spec: the lookup of a field is not under src/. The specification keys
  it "by exact string equality on (classpath, classname, member name, signature
  string)"; this is its test of one descriptor against a requested name and signature.
\<close>

definition field_key_matches :: "FieldId \<Rightarrow> string \<Rightarrow> string \<Rightarrow> bool" where
  "field_key_matches fid name signature =
     (fid_name fid = Some name \<and> fid_signature fid = Some signature)"

section \<open>The class registry\<close>

text \<open>
  Modelled from the spec: the header under src/ only declares
  \<^verbatim>\<open>static std::vector<const Class*> &get_class_registry();\<close> and
  \<^verbatim>\<open>static int register_class(const Class &clazz);\<close>; their bodies are not at hand. The
  specification: register "appends a descriptor and must reject (or otherwise flag) an
  attempt to register a duplicate (classpath, classname) pair"; enumerate "exposes the
  full ordered collection". The registry is the sequence of registered descriptors; the
  returned \<^verbatim>\<open>int\<close> is 1 for an appended descriptor and 0 for a rejected one.
\<close>

definition class_key :: "Class \<Rightarrow> c_str \<times> c_str" where
  "class_key clz = (classpath clz, classname clz)"

definition register_class :: "Class \<Rightarrow> Class list \<Rightarrow> int \<times> Class list" where
  "register_class clz registry =
     (if class_key clz \<in> set (map class_key registry) then (0, registry)
      else (1, registry @ [clz]))"

definition get_class_registry :: "Class list \<Rightarrow> Class list" where
  "get_class_registry registry = registry"

text \<open>Registering a sequence of descriptors, one call after the other.\<close>

fun register_classes :: "Class list \<Rightarrow> Class list \<Rightarrow> Class list" where
  "register_classes [] registry = registry"
| "register_classes (clz # clzs) registry =
     register_classes clzs (snd (register_class clz registry))"


subsection \<open>The operations of the core on objects and on the registry\<close>











section \<open>Strings\<close>

text \<open>
  The class types the conversion is between. jni.h declares \<^verbatim>\<open>class _jobject {};\<close> and
  \<^verbatim>\<open>class _jstring : public _jobject {};\<close>; the header declares
  \<^verbatim>\<open>struct ArrayObject : Object\<close> and \<^verbatim>\<open>class String : Object\<close>.
\<close>

datatype cxx_type = T_jobject | T_jstring | T_Object | T_ArrayObject | T_String

text \<open>\<open>base_offset D B\<close>: where the subobject of base class \<open>B\<close> lies inside an object of
  class \<open>D\<close>. Each of these classes has one base, which is placed first.\<close>

fun base_offset :: "cxx_type \<Rightarrow> cxx_type \<Rightarrow> nat option" where
  "base_offset T_jstring T_jobject = Some 0"
| "base_offset T_ArrayObject T_Object = Some 0"
| "base_offset T_String T_Object = Some 0"
| "base_offset D B = None"

record pointer =
  pointee :: cxx_type
  address :: addr

text \<open>
  The cast \<^verbatim>\<open>(T*)p\<close>: a conversion to a base class or to a derived class where the two
  classes are so related, which moves the pointer by the offset of the base; between
  unrelated classes a reinterpretation, which keeps the address.
\<close>

definition c_style_cast :: "cxx_type \<Rightarrow> pointer \<Rightarrow> pointer" where
  "c_style_cast T p =
     (case base_offset (pointee p) T of
        Some off \<Rightarrow> \<lparr>pointee = T, address = address p + off\<rparr>
      | None \<Rightarrow>
          (case base_offset T (pointee p) of
             Some off \<Rightarrow> \<lparr>pointee = T, address = address p - off\<rparr>
           | None \<Rightarrow> \<lparr>pointee = T, address = address p\<rparr>))"

text \<open>The built-in operator \<^verbatim>\<open>&\<close> on an object of class \<open>T\<close> at address \<open>a\<close>.\<close>

definition builtin_address_of :: "cxx_type \<Rightarrow> addr \<Rightarrow> pointer" where
  "builtin_address_of T a = \<lparr>pointee = T, address = a\<rparr>"

text \<open>
  \<^verbatim>\<open>friend String* operator&(_jstring& jstr) { return (String*)&jstr; };\<close>
  This is the function itself, as a call of it would run: the argument is the address
  of the object \<open>jstr\<close> refers to, and the \<^verbatim>\<open>&\<close> in the body is the built-in operator.
\<close>

definition operator_address_of :: "addr \<Rightarrow> pointer" where
  "operator_address_of jstr = c_style_cast T_String (builtin_address_of T_jstring jstr)"

text \<open>
  Which function the expression \<^verbatim>\<open>&x\<close> calls, for an object \<open>x\<close> of class \<open>T\<close>. The friend
  is declared inside \<^verbatim>\<open>String\<close> and nowhere else, so lookup finds it only through the
  classes associated with the operand: the class of the operand and its base classes.
  It accepts an operand that is a \<^verbatim>\<open>_jstring\<close>. Where it is not found or does not accept
  the operand, \<^verbatim>\<open>&x\<close> is the built-in operator.
\<close>

fun base_classes :: "cxx_type \<Rightarrow> cxx_type list" where
  "base_classes T_jstring = [T_jobject]"
| "base_classes T_ArrayObject = [T_Object]"
| "base_classes T_String = [T_Object]"
| "base_classes T = []"

definition associated_classes :: "cxx_type \<Rightarrow> cxx_type list" where
  "associated_classes T = T # base_classes T"

definition friend_operator_found :: "cxx_type \<Rightarrow> bool" where
  "friend_operator_found T = (T_String \<in> set (associated_classes T))"

definition friend_operator_accepts :: "cxx_type \<Rightarrow> bool" where
  "friend_operator_accepts T = (T_jstring \<in> set (associated_classes T))"

definition address_of_expression :: "cxx_type \<Rightarrow> addr \<Rightarrow> pointer" where
  "address_of_expression T a =
     (if friend_operator_found T \<and> friend_operator_accepts T then operator_address_of a
      else builtin_address_of T a)"

section \<open>Properties of the dispatch generator\<close>

subsection \<open>Extraction\<close>

lemma expand_va_arg_drop:
  "pos + length Ts \<le> length mem \<Longrightarrow>
   list_all (\<lambda>(T, s). rd T s \<noteq> None) (zip Ts (drop pos mem)) \<Longrightarrow>
   expand_va_arg rd Ts (mem, pos) st =
     Some (map (\<lambda>(T, s). the (rd T s)) (zip Ts (drop pos mem)), (mem, pos + length Ts),
           st\<lparr>trace := trace st @ map Consume [pos..<pos + length Ts]\<rparr>)"
proof (induction Ts arbitrary: pos st)
  case Nil
  then show ?case by simp
next
  case (Cons T Ts)
  from Cons.prems(1) have lt: "pos < length mem" by simp
  then have dr: "drop pos mem = mem ! pos # drop (Suc pos) mem"
    by (simp add: Cons_nth_drop_Suc)
  from Cons.prems(2) dr obtain x where x: "rd T (mem ! pos) = Some x"
    by auto
  from Cons.prems(2) dr
  have rest: "list_all (\<lambda>(T, s). rd T s \<noteq> None) (zip Ts (drop (Suc pos) mem))"
    by simp
  from Cons.prems(1) have le: "Suc pos + length Ts \<le> length mem" by simp
  have up: "[pos..<Suc (pos + length Ts)] = pos # [Suc pos..<Suc (pos + length Ts)]"
    by (subst upt_rec) simp
  show ?case
    using lt x by (simp add: va_arg_def Cons.IH [OF le rest] dr up del: upt_Suc)
qed

lemma expand_get_drop:
  "pos + length Ts \<le> length mem \<Longrightarrow>
   list_all (\<lambda>(T, s). rd T s \<noteq> None) (zip Ts (drop pos mem)) \<Longrightarrow>
   expand_get rd Ts (mem, pos) st =
     Some (map (\<lambda>(T, s). the (rd T s)) (zip Ts (drop pos mem)), (mem, pos + length Ts),
           st\<lparr>trace := trace st @ map Consume [pos..<pos + length Ts]\<rparr>)"
proof (induction Ts arbitrary: pos st)
  case Nil
  then show ?case by simp
next
  case (Cons T Ts)
  from Cons.prems(1) have lt: "pos < length mem" by simp
  then have dr: "drop pos mem = mem ! pos # drop (Suc pos) mem"
    by (simp add: Cons_nth_drop_Suc)
  from Cons.prems(2) dr obtain x where x: "rd T (mem ! pos) = Some x"
    by auto
  from Cons.prems(2) dr
  have rest: "list_all (\<lambda>(T, s). rd T s \<noteq> None) (zip Ts (drop (Suc pos) mem))"
    by simp
  from Cons.prems(1) have le: "Suc pos + length Ts \<le> length mem" by simp
  have up: "[pos..<Suc (pos + length Ts)] = pos # [Suc pos..<Suc (pos + length Ts)]"
    by (subst upt_rec) simp
  show ?case
    using lt x by (simp add: get_def deref_def Cons.IH [OF le rest] dr up del: upt_Suc)
qed

lemma extracted_zip:
  "length Args \<le> length mem \<Longrightarrow>
   map (\<lambda>(T, s). the (rd T s)) (zip Args mem) = extracted rd Args mem"
  unfolding extracted_def by (rule nth_equalityI) simp_all

lemma expand_va_arg_supplied:
  assumes "supplied rd Args mem"
  shows "expand_va_arg rd Args (mem, 0) st =
     Some (extracted rd Args mem, (mem, length Args),
           st\<lparr>trace := trace st @ map Consume [0..<length Args]\<rparr>)"
  using assms expand_va_arg_drop [of 0 Args mem rd st]
  by (simp add: supplied_def extracted_zip)

lemma expand_get_supplied:
  assumes "supplied rd Args mem"
  shows "expand_get rd Args (mem, 0) st =
     Some (extracted rd Args mem, (mem, length Args),
           st\<lparr>trace := trace st @ map Consume [0..<length Args]\<rparr>)"
  using assms expand_get_drop [of 0 Args mem rd st]
  by (simp add: supplied_def extracted_zip)

lemma invocations_append: "invocations (xs @ ys) = invocations xs + invocations ys"
  by (simp add: invocations_def)

lemma invocations_Consume: "invocations (map Consume ns) = 0"
  by (induction ns) (simp_all add: invocations_def)

text \<open>
  What a call that supplies its arguments does, in full: the positions \<open>0, ..., n - 1\<close>
  are consumed in this order, one per remaining parameter; then \<open>F\<close> is applied, once, to
  the prelude followed by the extracted arguments, where the argument for parameter \<open>i\<close>
  is position \<open>i\<close> read at type \<open>Args ! i\<close>; the state is the one \<open>F\<close> left, and the value
  returned is the one \<open>F\<close> returned, or none for \<^verbatim>\<open>void\<close>.
\<close>

lemma dispatch_v_supplied:
  assumes "supplied rd Args vs"
  shows "dispatch_v rd (VoidFn f) Args pre_args (vs, 0) st =
           Some (None,
             \<lparr>world = f (pre_args @ extracted rd Args vs) (world st),
              trace = trace st @ map Consume [0..<length Args]
                        @ [Invoke (pre_args @ extracted rd Args vs)]\<rparr>)"
    and "dispatch_v rd (ValueFn g) Args pre_args (vs, 0) st =
           Some (Some (fst (g (pre_args @ extracted rd Args vs) (world st))),
             \<lparr>world = snd (g (pre_args @ extracted rd Args vs) (world st)),
              trace = trace st @ map Consume [0..<length Args]
                        @ [Invoke (pre_args @ extracted rd Args vs)]\<rparr>)"
  by (simp_all add: dispatch_v_def expand_va_arg_supplied [OF assms]
        BraceCall_def BraceCallVoid_def split: prod.split)

lemma dispatch_a_supplied:
  assumes "supplied rd Args js"
  shows "dispatch_a rd (VoidFn f) Args pre_args (js, 0) st =
           Some (None,
             \<lparr>world = f (pre_args @ extracted rd Args js) (world st),
              trace = trace st @ map Consume [0..<length Args]
                        @ [Invoke (pre_args @ extracted rd Args js)]\<rparr>)"
    and "dispatch_a rd (ValueFn g) Args pre_args (js, 0) st =
           Some (Some (fst (g (pre_args @ extracted rd Args js) (world st))),
             \<lparr>world = snd (g (pre_args @ extracted rd Args js) (world st)),
              trace = trace st @ map Consume [0..<length Args]
                        @ [Invoke (pre_args @ extracted rd Args js)]\<rparr>)"
  by (simp_all add: dispatch_a_def expand_get_supplied [OF assms]
        BraceCall_def BraceCallVoid_def split: prod.split)

text \<open>
  An extraction that is undefined ends the call: nothing is returned and \<open>F\<close> is not
  applied, whatever \<open>F\<close> is.
\<close>

lemma expand_va_arg_undefined:
  "i < length Args \<Longrightarrow> i < length vs \<Longrightarrow> rd (Args ! i) (vs ! i) = None \<Longrightarrow>
   expand_va_arg rd (drop k Args) (vs, k) st = None \<or> i < k"
proof (induction "length Args - k" arbitrary: k st)
  case 0
  then show ?case by simp
next
  case (Suc d)
  show ?case
  proof (cases "i < k")
    case True
    then show ?thesis by simp
  next
    case False
    from Suc.hyps(2) have k: "k < length Args" by simp
    then have dr: "drop k Args = Args ! k # drop (Suc k) Args"
      by (simp add: Cons_nth_drop_Suc)
    show ?thesis
    proof (cases "k < length vs")
      case outside: False
      then show ?thesis by (simp add: dr va_arg_def)
    next
      case inside: True
      show ?thesis
      proof (cases "rd (Args ! k) (vs ! k)")
        case None
        with inside show ?thesis by (simp add: dr va_arg_def)
      next
        case (Some x)
        with False Suc.prems(3) have "i \<noteq> k" by auto
        with False have later: "\<not> i < Suc k" by simp
        from Suc.hyps(2) have d: "d = length Args - Suc k" by simp
        have "expand_va_arg rd (drop (Suc k) Args) (vs, Suc k)
                (st\<lparr>trace := trace st @ [Consume k]\<rparr>) = None \<or> i < Suc k"
          using d Suc.prems by (rule Suc.hyps(1))
        with later
        have "expand_va_arg rd (drop (Suc k) Args) (vs, Suc k)
                (st\<lparr>trace := trace st @ [Consume k]\<rparr>) = None"
          by simp
        with inside Some show ?thesis by (simp add: dr va_arg_def)
      qed
    qed
  qed
qed

lemma dispatch_v_undefined:
  assumes "i < length Args" and "i < length vs" and "rd (Args ! i) (vs ! i) = None"
  shows "dispatch_v rd F Args pre_args (vs, 0) st = None"
  using assms expand_va_arg_undefined [where rd = rd and Args = Args and vs = vs and i = i
      and k = 0 and st = st]
  by (simp add: dispatch_v_def)

subsection \<open>The two entry points against each other\<close>

lemma dispatch_agree:
  assumes "supplied va_rd Args vs" and "supplied arr_rd Args js"
    and "extracted va_rd Args vs = extracted arr_rd Args js"
  shows "dispatch_v va_rd F Args pre_args (vs, 0) st = dispatch_a arr_rd F Args pre_args (js, 0) st"
  by (simp add: dispatch_v_def dispatch_a_def expand_va_arg_supplied [OF assms(1)]
        expand_get_supplied [OF assms(2)] assms(3))

lemma va_pass_unpromoted: "promotes_to (type_of x) = type_of x \<Longrightarrow> va_pass x = x"
  by (cases x) simp

lemma jni_va_arg_unpromoted:
  "promotes_to (type_of x) = type_of x \<Longrightarrow> jni_va_arg (type_of x) x = Some x"
  by (cases x) simp

lemma jvalue_read_type_of: "jvalue_read (type_of x) x = Some x"
  by (cases x) simp

lemma supplied_jni_va_arg:
  "list_all (\<lambda>x. promotes_to (type_of x) = type_of x) xs \<Longrightarrow>
   supplied jni_va_arg (map type_of xs) xs"
  by (induction xs) (simp_all add: supplied_def jni_va_arg_unpromoted)

lemma supplied_jvalue_read: "supplied jvalue_read (map type_of xs) xs"
  by (induction xs) (simp_all add: supplied_def jvalue_read_type_of)

lemma extracted_jvalue_read: "extracted jvalue_read (map type_of xs) xs = xs"
  unfolding extracted_def
  by (rule nth_equalityI) (simp_all add: jvalue_read_type_of)

lemma extracted_jni_va_arg:
  "list_all (\<lambda>x. promotes_to (type_of x) = type_of x) xs \<Longrightarrow>
   extracted jni_va_arg (map type_of xs) xs = xs"
  unfolding extracted_def
  by (rule nth_equalityI) (simp_all add: jni_va_arg_unpromoted list_all_length)

text \<open>
  Where no parameter type is changed by the default argument promotions, the two entry
  points agree on every argument list: same returned value, same state, same trace.
\<close>

lemma dispatch_agree_unpromoted:
  assumes "list_all (\<lambda>x. promotes_to (type_of x) = type_of x) xs"
  shows "dispatch_v jni_va_arg F (map type_of xs) pre_args (map va_pass xs, 0) st =
         dispatch_a jvalue_read F (map type_of xs) pre_args (xs, 0) st"
proof -
  from assms have "map va_pass xs = xs"
    by (induction xs) (simp_all add: va_pass_unpromoted)
  then show ?thesis
    using dispatch_agree [OF supplied_jni_va_arg [OF assms] supplied_jvalue_read]
    by (simp add: extracted_jni_va_arg [OF assms] extracted_jvalue_read)
qed

text \<open>
  Claim C2. The two entry points do not agree for every registered function. For a
  function with a \<^verbatim>\<open>jboolean\<close> parameter, the argument reaches the variable-argument
  stream promoted to \<^verbatim>\<open>int\<close>; \<^verbatim>\<open>dispatch_v\<close> reads it with \<^verbatim>\<open>va_arg(va, jboolean)\<close>, which
  is undefined, and does not reach the call of \<open>F\<close>. \<^verbatim>\<open>dispatch_a\<close>, given the same
  argument in a slot, reads the \<^verbatim>\<open>jboolean\<close> and invokes \<open>F\<close> on it.
\<close>

theorem dispatch_v_promoted_parameter:
  "dispatch_v jni_va_arg (VoidFn f) [JBoolean] [env, obj] ([va_pass (CVal JBoolean b)], 0) st = None
   \<and> dispatch_a jvalue_read (VoidFn f) [JBoolean] [env, obj] ([CVal JBoolean b], 0) st =
       Some (None, \<lparr>world = f [env, obj, CVal JBoolean b] (world st),
                    trace = trace st @ [Consume 0, Invoke [env, obj, CVal JBoolean b]]\<rparr>)"
  by (simp add: dispatch_v_def dispatch_a_def va_arg_def get_def deref_def BraceCallVoid_def)

lemma jni_va_arg_promoted: "promotes_to T \<noteq> T \<Longrightarrow> jni_va_arg T v = None"
  by (cases v) simp

text \<open>
  A registered function with a parameter of a type that the promotions change is never
  reached through the variadic entry point, whatever the arguments are.
\<close>

lemma dispatch_v_promoted_never:
  assumes "i < length Args" and "i < length vs" and "promotes_to (Args ! i) \<noteq> Args ! i"
  shows "dispatch_v jni_va_arg F Args pre_args (vs, 0) st = None"
proof (rule dispatch_v_undefined [where i = i])
  show "i < length Args" and "i < length vs"
    by (rule assms)+
  show "jni_va_arg (Args ! i) (vs ! i) = None"
    by (rule jni_va_arg_promoted [OF assms(3)])
qed

subsection \<open>Extraction order at a promoted parameter\<close>

text \<open>
  Claim C1. The claim holds of \<^verbatim>\<open>dispatch_a\<close> and fails of \<^verbatim>\<open>dispatch_v\<close>. Take a
  registered function with remaining parameters \<open>(jint, jbyte, jlong)\<close> and the arguments
  \<open>(a, b, c)\<close>. Given the packed array \<open>[a, b, c]\<close>, \<^verbatim>\<open>dispatch_a\<close> consumes the slots 0, 1
  and 2 in this order and then applies \<open>F\<close> to \<open>(env, obj, a, b, c)\<close>. Given the same
  arguments through the variable arguments, where \<open>b\<close> arrives as an \<^verbatim>\<open>int\<close>, \<^verbatim>\<open>dispatch_v\<close>
  reads the second one with \<^verbatim>\<open>va_arg(va, jbyte)\<close>, which is undefined: \<open>F\<close> is not invoked.
\<close>

theorem dispatch_v_order_promoted_parameter:
  "dispatch_v jni_va_arg F [JInt, JByte, JLong] [env, obj]
     (map va_pass [CVal JInt a, CVal JByte b, CVal JLong c], 0) st = None
   \<and> dispatch_a jvalue_read (VoidFn f) [JInt, JByte, JLong] [env, obj]
       ([CVal JInt a, CVal JByte b, CVal JLong c], 0) st =
       Some (None,
         \<lparr>world = f [env, obj, CVal JInt a, CVal JByte b, CVal JLong c] (world st),
          trace = trace st @ [Consume 0, Consume 1, Consume 2,
                    Invoke [env, obj, CVal JInt a, CVal JByte b, CVal JLong c]]\<rparr>)"
proof
  have "promotes_to ([JInt, JByte, JLong] ! 1) \<noteq> [JInt, JByte, JLong] ! 1"
    by simp
  then show "dispatch_v jni_va_arg F [JInt, JByte, JLong] [env, obj]
     (map va_pass [CVal JInt a, CVal JByte b, CVal JLong c], 0) st = None"
    by (intro dispatch_v_promoted_never [of 1]) simp_all
  have s: "supplied jvalue_read [JInt, JByte, JLong] [CVal JInt a, CVal JByte b, CVal JLong c]"
    by (simp add: supplied_def)
  show "dispatch_a jvalue_read (VoidFn f) [JInt, JByte, JLong] [env, obj]
       ([CVal JInt a, CVal JByte b, CVal JLong c], 0) st =
       Some (None,
         \<lparr>world = f [env, obj, CVal JInt a, CVal JByte b, CVal JLong c] (world st),
          trace = trace st @ [Consume 0, Consume 1, Consume 2,
                    Invoke [env, obj, CVal JInt a, CVal JByte b, CVal JLong c]]\<rparr>)"
    by (simp add: dispatch_a_supplied(1) [OF s] extracted_def numeral_2_eq_2)
qed

subsection \<open>The call and its result at a promoted parameter\<close>

text \<open>
  Claim C3. The claim holds of \<^verbatim>\<open>dispatch_a\<close> and fails of \<^verbatim>\<open>dispatch_v\<close>. Take a
  registered function with the remaining parameter \<open>(jshort)\<close>, returning \<^verbatim>\<open>void\<close> (\<open>f\<close>)
  or a value (\<open>g\<close>). \<^verbatim>\<open>dispatch_a\<close> invokes it exactly once, returns nothing for \<open>f\<close> and
  the value of \<open>g\<close>, unchanged, for \<open>g\<close>. \<^verbatim>\<open>dispatch_v\<close>, given the same argument through
  the variable arguments, stops at \<^verbatim>\<open>va_arg(va, jshort)\<close>: the function is invoked zero
  times and no result of \<open>g\<close> reaches the caller.
\<close>

theorem dispatch_v_no_call_promoted_parameter:
  "map_option observe
     (dispatch_v jni_va_arg (VoidFn f) [JShort] [env, obj] ([va_pass (CVal JShort x)], 0) st)
     = None
   \<and> map_option observe
     (dispatch_v jni_va_arg (ValueFn g) [JShort] [env, obj] ([va_pass (CVal JShort x)], 0) st)
     = None
   \<and> map_option observe
     (dispatch_a jvalue_read (VoidFn f) [JShort] [env, obj] ([CVal JShort x], 0) st)
     = Some (None, f [env, obj, CVal JShort x] (world st), invocations (trace st) + 1)
   \<and> map_option observe
     (dispatch_a jvalue_read (ValueFn g) [JShort] [env, obj] ([CVal JShort x], 0) st)
     = Some (Some (fst (g [env, obj, CVal JShort x] (world st))),
             snd (g [env, obj, CVal JShort x] (world st)), invocations (trace st) + 1)"
proof -
  have vf: "dispatch_v jni_va_arg (VoidFn f) [JShort] [env, obj]
              ([va_pass (CVal JShort x)], 0) st = None"
    by (rule dispatch_v_promoted_never [of 0]) simp_all
  have vg: "dispatch_v jni_va_arg (ValueFn g) [JShort] [env, obj]
              ([va_pass (CVal JShort x)], 0) st = None"
    by (rule dispatch_v_promoted_never [of 0]) simp_all
  have s: "supplied jvalue_read [JShort] [CVal JShort x]"
    by (simp add: supplied_def)
  show ?thesis
    unfolding vf vg
    by (simp add: dispatch_a_supplied [OF s] extracted_def observe_def invocations_def)
qed

section \<open>Properties of registration\<close>

text \<open>
  Claim C4. Each of the three registration operations builds exactly when the type of
  \<open>F\<close> is one \<^verbatim>\<open>unwrap\<close> matches, \<open>F\<close> has at least as many parameters as the prelude of
  the shape, and the leading parameter types of \<open>F\<close> are that prelude, in order:
  \<open>(JNIEnv *, jobject)\<close> for \<^verbatim>\<open>Register\<close>, \<open>(JNIEnv *, jclass)\<close> for \<^verbatim>\<open>RegisterStatic\<close>,
  \<open>(JNIEnv *, jobject, jclass)\<close> for \<^verbatim>\<open>RegisterNonVirtual\<close>. So registration succeeds
  only when both checks pass; whenever one of them fails the build fails, and no
  descriptor exists at run time.
\<close>

theorem registration_prelude_check:
  "builds (Register F ft clz name signature) =
     (unwrap_matches ft \<and> prelude_ok [JNIEnvPtr, JObject] (fn_args ft))
   \<and> builds (RegisterStatic F ft clz name signature) =
     (unwrap_matches ft \<and> prelude_ok [JNIEnvPtr, JClass] (fn_args ft))
   \<and> builds (RegisterNonVirtual F ft clz name signature) =
     (unwrap_matches ft \<and> prelude_ok [JNIEnvPtr, JObject, JClass] (fn_args ft))"
proof (cases "fn_args ft")
  case Nil
  then show ?thesis
    by (simp add: Register_def RegisterStatic_def RegisterNonVirtual_def builds_def
        prelude_ok_def tuple_size_v_def)
next
  case (Cons a as)
  note a = this
  show ?thesis
  proof (cases as)
    case Nil
    with a show ?thesis
      by (simp add: Register_def RegisterStatic_def RegisterNonVirtual_def builds_def
          prelude_ok_def tuple_size_v_def)
  next
    case (Cons b bs)
    note b = this
    show ?thesis
    proof (cases bs)
      case Nil
      with a b show ?thesis
        by (auto simp add: Register_def RegisterStatic_def RegisterNonVirtual_def builds_def
            prelude_ok_def tuple_size_v_def tuple_element_t_def is_same_v_def
            numeral_2_eq_2)
    next
      case (Cons c cs)
      with a b show ?thesis
        by (auto simp add: Register_def RegisterStatic_def RegisterNonVirtual_def builds_def
            prelude_ok_def tuple_size_v_def tuple_element_t_def is_same_v_def
            numeral_2_eq_2 numeral_3_eq_3)
    qed
  qed
qed

subsection \<open>Placement of members\<close>

lemma align_up_ge: "n \<le> align_up a n"
proof (cases "n mod a = 0")
  case True
  then show ?thesis by (simp add: align_up_def)
next
  case False
  have "n \<le> n + (a - n mod a)" by (rule le_add1)
  with False show ?thesis by (simp only: align_up_def if_False)
qed

lemma end_from_ge: "pos \<le> end_from pos ms"
proof (induction ms arbitrary: pos)
  case Nil
  then show ?case by simp
next
  case (Cons m ms)
  have "pos \<le> align_up (m_align m) pos + m_size m"
    using align_up_ge [of pos "m_align m"] by simp
  also have "\<dots> \<le> end_from (align_up (m_align m) pos + m_size m) ms"
    by (rule Cons.IH)
  finally show ?case by simp
qed

lemma offsets_from_bounds:
  "complete_members ms \<Longrightarrow> map_of (offsets_from pos ms) field = Some off \<Longrightarrow>
   pos \<le> off \<and> off < end_from pos ms"
proof (induction ms arbitrary: pos)
  case Nil
  then show ?case by simp
next
  case (Cons m ms)
  from Cons.prems(1) have sz: "0 < m_size m" and rest: "complete_members ms"
    by (simp_all add: complete_members_def)
  let ?here = "align_up (m_align m) pos"
  have ge: "pos \<le> ?here"
    by (rule align_up_ge)
  show ?case
  proof (cases "field = m_name m")
    case True
    with Cons.prems(2) have "off = ?here" by simp
    moreover have "?here + m_size m \<le> end_from (?here + m_size m) ms"
      by (rule end_from_ge)
    ultimately show ?thesis
      using ge sz by simp
  next
    case False
    with Cons.prems(2) have "map_of (offsets_from (?here + m_size m) ms) field = Some off"
      by simp
    from Cons.IH [OF rest this] show ?thesis
      using ge by simp
  qed
qed

lemma end_le_sizeof: "end_from 0 ms \<le> sizeof ms"
  using align_up_ge [of "end_from 0 ms" "alignof ms"] by (simp add: sizeof_def)

lemma offsetof_less_sizeof:
  assumes "complete_members ms" and "offsetof ms field = Some off"
  shows "off < sizeof ms"
  using offsets_from_bounds [OF assms(1), of 0 field off] assms(2) end_le_sizeof [of ms]
  by (simp add: offsetof_def)

lemma sizeof_Object_members: "0 < psz \<Longrightarrow> sizeof (Object_members psz) = psz"
  by (simp add: sizeof_def Object_members_def alignof_def align_up_def)

subsection \<open>Instance fields\<close>

text \<open>
  Claim C5. Let \<open>fid\<close> be the descriptor \<^verbatim>\<open>REGISTER_FIELD\<close> makes for an instance field of a
  class whose descriptor gives the size of its instances. For every base address
  \<open>base\<close> of an instance, the field lies at \<open>base + offset\<close>, and the offset is below
  \<open>instance_size\<close>.
\<close>

theorem instance_field_address:
  assumes "REGISTER_FIELD clz field = Some fid"
    and "complete_members (members clz)"
    and "instance_size_of_class clz"
  shows "member_address clz base field = Some (base + fid_offset fid)
       \<and> fid_clazz fid = Some (static_clazz clz)
       \<and> int (fid_offset fid) < instance_size (static_clazz clz)"
proof -
  from assms(1) obtain off where off: "offsetof (members clz) field = Some off"
    and fid: "fid = \<lparr>fid_clazz = Some (static_clazz clz), fid_name = Some field,
                      fid_signature = None, fid_offset = off, fid_is_static = 0\<rparr>"
    by (auto simp: REGISTER_FIELD_def member_address_def split: option.splits)
  from offsetof_less_sizeof [OF assms(2) off] assms(3)
  have "int off < instance_size (static_clazz clz)"
    by (simp add: instance_size_of_class_def)
  with off fid show ?thesis
    by (simp add: member_address_def)
qed

text \<open>On a class laid out as \<^verbatim>\<open>ArrayObject\<close> is with 8-byte pointers, \<^verbatim>\<open>element_size\<close> has
  offset 20; in an instance at address 4096 it lies at 4116; an instance has 32 bytes.\<close>

theorem instance_field_address_witness:
  "REGISTER_FIELD
     \<lparr>static_clazz = \<lparr>classpath = Some ''java/lang'', classname = Some ''Array'',
        managed_methods = 0, native_methods = 0, class_fields = 0, instance_size = 32\<rparr>,
      static_members = [], members = ArrayObject_members 8\<rparr> ''element_size'' =
     Some \<lparr>fid_clazz = Some \<lparr>classpath = Some ''java/lang'', classname = Some ''Array'',
        managed_methods = 0, native_methods = 0, class_fields = 0, instance_size = 32\<rparr>,
       fid_name = Some ''element_size'', fid_signature = None, fid_offset = 20, fid_is_static = 0\<rparr>
   \<and> member_address
     \<lparr>static_clazz = \<lparr>classpath = Some ''java/lang'', classname = Some ''Array'',
        managed_methods = 0, native_methods = 0, class_fields = 0, instance_size = 32\<rparr>,
      static_members = [], members = ArrayObject_members 8\<rparr> 4096 ''element_size'' = Some 4116
   \<and> (20 :: int) < 32"
proof -
  let ?C = "\<lparr>classpath = Some ''java/lang'', classname = Some ''Array'',
        managed_methods = 0, native_methods = 0, class_fields = 0, instance_size = 32\<rparr>"
  let ?K = "\<lparr>static_clazz = ?C, static_members = [], members = ArrayObject_members 8\<rparr>"
  let ?fid = "\<lparr>fid_clazz = Some ?C,
       fid_name = Some ''element_size'', fid_signature = None, fid_offset = 20, fid_is_static = 0\<rparr>"
  have r: "REGISTER_FIELD ?K ''element_size'' = Some ?fid"
    by (simp add: REGISTER_FIELD_def member_address_def offsetof_def ArrayObject_members_def
        Object_members_def align_up_def)
  have c: "complete_members (members ?K)"
    by (simp add: complete_members_def ArrayObject_members_def Object_members_def)
  have i: "instance_size_of_class ?K"
    by (simp add: instance_size_of_class_def sizeof_def alignof_def ArrayObject_members_def
        Object_members_def align_up_def)
  from instance_field_address [OF r c i, of 4096] r show ?thesis
    by simp
qed

text \<open>
  Claim C6, as stated: the stored value is the offset of the member from the start of
  the payload area, the region after the \<^verbatim>\<open>Object\<close> header, not from the start of the
  object. It fails: for the first member after the header of a class laid out as
  \<^verbatim>\<open>ArrayObject\<close> is, the macro stores 8, and the offset within the payload area is 0.
\<close>

theorem payload_offset_counterexample:
  "map_option fid_offset
     (REGISTER_FIELD
        \<lparr>static_clazz = \<lparr>classpath = Some ''java/lang'', classname = Some ''Array'',
           managed_methods = 0, native_methods = 0, class_fields = 0, instance_size = 32\<rparr>,
         static_members = [], members = ArrayObject_members 8\<rparr> ''instance_clazz'')
     \<noteq> payload_offset 8
        \<lparr>static_clazz = \<lparr>classpath = Some ''java/lang'', classname = Some ''Array'',
           managed_methods = 0, native_methods = 0, class_fields = 0, instance_size = 32\<rparr>,
         static_members = [], members = ArrayObject_members 8\<rparr> ''instance_clazz''
   \<and> map_option fid_offset
     (REGISTER_FIELD
        \<lparr>static_clazz = \<lparr>classpath = Some ''java/lang'', classname = Some ''Array'',
           managed_methods = 0, native_methods = 0, class_fields = 0, instance_size = 32\<rparr>,
         static_members = [], members = ArrayObject_members 8\<rparr> ''instance_clazz'') = Some 8
   \<and> payload_offset 8
        \<lparr>static_clazz = \<lparr>classpath = Some ''java/lang'', classname = Some ''Array'',
           managed_methods = 0, native_methods = 0, class_fields = 0, instance_size = 32\<rparr>,
         static_members = [], members = ArrayObject_members 8\<rparr> ''instance_clazz'' = Some 0"
  by (simp add: REGISTER_FIELD_def member_address_def payload_offset_def offsetof_def
      ArrayObject_members_def Object_members_def align_up_def sizeof_def alignof_def)

text \<open>
  Claim C6, amended. The value \<^verbatim>\<open>REGISTER_FIELD\<close> stores is the offset of the member from
  the start of the object itself, the address the member has in an object placed at
  address 0. For a class that places the \<^verbatim>\<open>Object\<close> header first, it is the size of the
  header plus the offset of the member within the payload area.
\<close>

theorem instance_field_offset_from_object_start:
  assumes "REGISTER_FIELD clz field = Some fid"
    and "derives_Object psz clz" and "0 < psz" and "field \<noteq> ''clazz''"
    and "complete_members (members clz)"
  shows "member_address clz 0 field = Some (fid_offset fid)
       \<and> (\<exists>po. payload_offset psz clz field = Some po
              \<and> fid_offset fid = sizeof (Object_members psz) + po)"
proof -
  from assms(1) obtain off where off: "offsetof (members clz) field = Some off"
    and fid: "fid_offset fid = off"
    by (auto simp: REGISTER_FIELD_def member_address_def split: option.splits)
  from assms(2) obtain own where own: "members clz = Object_members psz @ own"
    by (cases "members clz") (auto simp: derives_Object_def Object_members_def)
  with assms(5) have c: "complete_members own"
    by (simp add: complete_members_def Object_members_def)
  from off own assms(3,4) have "map_of (offsets_from psz own) field = Some off"
    by (simp add: offsetof_def Object_members_def align_up_def)
  from offsets_from_bounds [OF c this] have "psz \<le> off" by simp
  with off fid assms(3) show ?thesis
    by (simp add: member_address_def payload_offset_def sizeof_Object_members)
qed

theorem instance_field_offset_from_object_start_witness:
  "member_address
     \<lparr>static_clazz = \<lparr>classpath = Some ''java/lang'', classname = Some ''Array'',
        managed_methods = 0, native_methods = 0, class_fields = 0, instance_size = 32\<rparr>,
      static_members = [], members = ArrayObject_members 8\<rparr> 0 ''count'' = Some 16
   \<and> payload_offset 8
     \<lparr>static_clazz = \<lparr>classpath = Some ''java/lang'', classname = Some ''Array'',
        managed_methods = 0, native_methods = 0, class_fields = 0, instance_size = 32\<rparr>,
      static_members = [], members = ArrayObject_members 8\<rparr> ''count'' = Some 8
   \<and> sizeof (Object_members 8) = 8"
proof -
  let ?C = "\<lparr>classpath = Some ''java/lang'', classname = Some ''Array'',
        managed_methods = 0, native_methods = 0, class_fields = 0, instance_size = 32\<rparr>"
  let ?K = "\<lparr>static_clazz = ?C, static_members = [], members = ArrayObject_members 8\<rparr>"
  let ?fid = "\<lparr>fid_clazz = Some ?C,
       fid_name = Some ''count'', fid_signature = None, fid_offset = 16, fid_is_static = 0\<rparr>"
  have r: "REGISTER_FIELD ?K ''count'' = Some ?fid"
    by (simp add: REGISTER_FIELD_def member_address_def offsetof_def ArrayObject_members_def
        Object_members_def align_up_def)
  have d: "derives_Object 8 ?K"
    by (simp add: derives_Object_def ArrayObject_members_def Object_members_def)
  have p: "0 < (8::nat)" by simp
  have n: "''count'' \<noteq> ''clazz''" by simp
  have c: "complete_members (members ?K)"
    by (simp add: complete_members_def ArrayObject_members_def Object_members_def)
  from instance_field_offset_from_object_start [OF r d p n c] show ?thesis
    by (auto simp: sizeof_Object_members)
qed

text \<open>
  Claim C9. A descriptor made by \<^verbatim>\<open>REGISTER_FIELD\<close> or by \<^verbatim>\<open>REGISTER_STATIC_FIELD\<close> has a null
  \<^verbatim>\<open>signature\<close>, so no requested name and signature string match it.
\<close>

theorem registered_field_signature_null:
  assumes "REGISTER_FIELD clz field = Some fid \<or> REGISTER_STATIC_FIELD clz field = Some fid"
  shows "fid_signature fid = None \<and> \<not> field_key_matches fid name signature"
  using assms
  by (auto simp: REGISTER_FIELD_def REGISTER_STATIC_FIELD_def field_key_matches_def
      split: option.splits)

theorem registered_field_signature_null_witness:
  "map_option fid_signature
     (REGISTER_FIELD
        \<lparr>static_clazz = \<lparr>classpath = Some ''java/lang'', classname = Some ''Array'',
           managed_methods = 0, native_methods = 0, class_fields = 0, instance_size = 32\<rparr>,
         static_members = [(''TYPE'', 8192)], members = ArrayObject_members 8\<rparr> ''count'')
     = Some None
   \<and> map_option fid_signature
     (REGISTER_STATIC_FIELD
        \<lparr>static_clazz = \<lparr>classpath = Some ''java/lang'', classname = Some ''Array'',
           managed_methods = 0, native_methods = 0, class_fields = 0, instance_size = 32\<rparr>,
         static_members = [(''TYPE'', 8192)], members = ArrayObject_members 8\<rparr> ''TYPE'')
     = Some None"
proof -
  let ?C = "\<lparr>classpath = Some ''java/lang'', classname = Some ''Array'',
        managed_methods = 0, native_methods = 0, class_fields = 0, instance_size = 32\<rparr>"
  let ?K = "\<lparr>static_clazz = ?C, static_members = [(''TYPE'', 8192)],
             members = ArrayObject_members 8\<rparr>"
  obtain f where f: "REGISTER_FIELD ?K ''count'' = Some f"
    by (simp add: REGISTER_FIELD_def member_address_def offsetof_def ArrayObject_members_def
        Object_members_def align_up_def)
  obtain g where g: "REGISTER_STATIC_FIELD ?K ''TYPE'' = Some g"
    by (simp add: REGISTER_STATIC_FIELD_def)
  from f have "fid_signature f = None"
    using registered_field_signature_null [of ?K "''count''" f "''count''" "''I''"] by blast
  moreover from g have "fid_signature g = None"
    using registered_field_signature_null [of ?K "''TYPE''" g "''TYPE''" "''I''"] by blast
  ultimately show ?thesis
    using f g by simp
qed

section \<open>Properties of the registry and of objects\<close>

lemma register_classes_distinct:
  "distinct (map class_key (registry @ clzs)) \<Longrightarrow>
   register_classes clzs registry = registry @ clzs"
proof (induction clzs arbitrary: registry)
  case Nil
  then show ?case by simp
next
  case (Cons c cs)
  from Cons.prems have fresh: "class_key c \<notin> set (map class_key registry)"
    by auto
  from Cons.prems have "distinct (map class_key ((registry @ [c]) @ cs))"
    by simp
  from Cons.IH [OF this] fresh show ?case
    by (simp add: register_class_def)
qed

text \<open>
  Claim C7. A descriptor whose (classpath, classname) pair is that of a registered one is
  rejected: the call returns 0 and the registry is unchanged. After registering \<open>N\<close>
  descriptors with pairwise distinct pairs into the empty registry, the enumeration is
  these \<open>N\<close> descriptors in the order of their registration.
\<close>

theorem registry_unique_and_ordered:
  "(class_key clz \<in> set (map class_key registry) \<longrightarrow>
      register_class clz registry = (0, registry))
   \<and> (distinct (map class_key clzs) \<longrightarrow>
        get_class_registry (register_classes clzs []) = clzs
        \<and> length (get_class_registry (register_classes clzs [])) = length clzs)"
  using register_classes_distinct [of "[]" clzs]
  by (simp add: register_class_def get_class_registry_def)

theorem registry_unique_and_ordered_witness:
  "register_class
     \<lparr>classpath = Some ''java/lang'', classname = Some ''String'', managed_methods = 3,
      native_methods = 4, class_fields = 5, instance_size = 16\<rparr>
     [\<lparr>classpath = Some ''java/lang'', classname = Some ''String'', managed_methods = 0,
       native_methods = 0, class_fields = 0, instance_size = 8\<rparr>]
   = (0, [\<lparr>classpath = Some ''java/lang'', classname = Some ''String'', managed_methods = 0,
            native_methods = 0, class_fields = 0, instance_size = 8\<rparr>])
   \<and> get_class_registry (register_classes
       [\<lparr>classpath = Some ''java/lang'', classname = Some ''String'', managed_methods = 0,
         native_methods = 0, class_fields = 0, instance_size = 8\<rparr>,
        \<lparr>classpath = Some ''java/lang'', classname = Some ''Object'', managed_methods = 0,
         native_methods = 0, class_fields = 0, instance_size = 8\<rparr>] [])
     = [\<lparr>classpath = Some ''java/lang'', classname = Some ''String'', managed_methods = 0,
         native_methods = 0, class_fields = 0, instance_size = 8\<rparr>,
        \<lparr>classpath = Some ''java/lang'', classname = Some ''Object'', managed_methods = 0,
         native_methods = 0, class_fields = 0, instance_size = 8\<rparr>]"
proof -
  let ?s = "\<lparr>classpath = Some ''java/lang'', classname = Some ''String'', managed_methods = 0,
       native_methods = 0, class_fields = 0, instance_size = 8\<rparr>"
  let ?s' = "\<lparr>classpath = Some ''java/lang'', classname = Some ''String'', managed_methods = 3,
      native_methods = 4, class_fields = 5, instance_size = 16\<rparr>"
  let ?o = "\<lparr>classpath = Some ''java/lang'', classname = Some ''Object'', managed_methods = 0,
         native_methods = 0, class_fields = 0, instance_size = 8\<rparr>"
  have dup: "class_key ?s' \<in> set (map class_key [?s])"
    by (simp add: class_key_def)
  have dis: "distinct (map class_key [?s, ?o])"
    by (simp add: class_key_def)
  from registry_unique_and_ordered [of ?s' "[?s]" "[?s, ?o]"] dup dis
  show ?thesis by blast
qed








section \<open>Properties of the string conversion\<close>

text \<open>
  Claim C10. The friend, if it were called, would return a pointer to \<^verbatim>\<open>String\<close> with the
  address of its argument. But the expression \<^verbatim>\<open>&jstr\<close> on a \<^verbatim>\<open>_jstring\<close> does not call it:
  \<^verbatim>\<open>String\<close> is not among the classes associated with \<^verbatim>\<open>_jstring\<close>, the friend is not
  found, and \<^verbatim>\<open>&jstr\<close> is the built-in operator. It yields the address of \<open>jstr\<close> as a
  pointer to \<^verbatim>\<open>_jstring\<close>, not as a pointer to \<^verbatim>\<open>String\<close>.
\<close>

theorem address_of_jstring_is_builtin:
  "address_of_expression T_jstring jstr = \<lparr>pointee = T_jstring, address = jstr\<rparr>
   \<and> pointee (address_of_expression T_jstring jstr) \<noteq> T_String
   \<and> operator_address_of jstr = \<lparr>pointee = T_String, address = jstr\<rparr>"
  by (simp add: address_of_expression_def friend_operator_found_def associated_classes_def
      builtin_address_of_def operator_address_of_def c_style_cast_def)

end
